theory Spec2Isabelle
  imports Complex_Main
begin

section \<open>Errors raised by the modelled code\<close>

text \<open>
  Every exception the modelled functions can raise is a constructor.
  \<^item> \<open>DifferentLengths\<close>: the \<open>ValueError('Inputs of different lenghts.')\<close> of \<open>int2srt\<close>;
  \<^item> \<open>AmbiguousTruthValue\<close>: numpy's \<open>ValueError\<close> for the truth value of an array
    with more than one element;
  \<^item> \<open>IndexError\<close>, \<open>KeyError\<close>, \<open>UnboundLocalError\<close>: Python's own;
  \<^item> \<open>BroadcastError\<close>: numpy's \<open>ValueError\<close> for adding arrays whose shapes do not
    broadcast;
  \<^item> \<open>OverflowError\<close>: Python's, for a float power whose result is out of range.
\<close>

datatype error =
    DifferentLengths
  | AmbiguousTruthValue
  | IndexError
  | KeyError
  | UnboundLocalError
  | BroadcastError
  | OverflowError

section \<open>general.py: int2srt\<close>

text \<open>
  Arrays are one-dimensional and hold real numbers (rounding is not modelled).
  The function returns \<open>x[0]\<close> (a scalar), an array indexed by \<open>idx\<close>, or \<open>None\<close>.
\<close>

datatype srt_result = Scalar real | Array "real list" | NoCrossing

text \<open>\<open>np.nonzero(np.diff(y >= srt))[0]\<close>: the indices \<open>i\<close> with
  \<open>(y[i] >= srt) != (y[i+1] >= srt)\<close>, in increasing order.\<close>

definition crossings :: "real list \<Rightarrow> real \<Rightarrow> nat list" where
  "crossings y srt =
     filter (\<lambda>i. (srt \<le> y ! i) \<noteq> (srt \<le> y ! Suc i)) [0..<length y - 1]"

text \<open>The truth value numpy gives an index array: an empty array is false, a
  one-element array has the truth value of its element, any longer array raises.\<close>

fun array_truth :: "nat list \<Rightarrow> error + bool" where
  "array_truth [] = Inr False"
| "array_truth [i] = Inr (i \<noteq> 0)"
| "array_truth (i # j # js) = Inl AmbiguousTruthValue"

text \<open>The interpolation formula of the source, at one index.\<close>

definition interpolate :: "real list \<Rightarrow> real list \<Rightarrow> real \<Rightarrow> nat \<Rightarrow> real" where
  "interpolate x y srt i =
     x ! i + (srt - y ! i) * (x ! Suc i - x ! i) / (y ! Suc i - y ! i)"

text \<open>The part of \<open>int2srt\<close> after the early return.\<close>

definition int2srt_tail :: "real list \<Rightarrow> real list \<Rightarrow> real \<Rightarrow> nat list \<Rightarrow> error + srt_result" where
  "int2srt_tail x y srt idx =
     (if 1 \<le> length idx then Inr (Array (map (interpolate x y srt) idx))
      else Inr NoCrossing)"

definition int2srt :: "real list \<Rightarrow> real list \<Rightarrow> real \<Rightarrow> error + srt_result" where
  "int2srt x y srt =
     (if length x \<noteq> length y then Inl DifferentLengths
      else
        let idx = crossings y srt in
        case array_truth idx of
          Inl e \<Rightarrow> Inl e
        | Inr t \<Rightarrow>
            if \<not> t then
              (case y of
                 [] \<Rightarrow> Inl IndexError
               | y0 # _ \<Rightarrow>
                   if y0 = srt then Inr (Scalar (x ! 0))
                   else int2srt_tail x y srt idx)
            else int2srt_tail x y srt idx)"

section \<open>numpy floating-point values\<close>

text \<open>
  A numpy float is a real number or one of the three special values. Rounding, overflow
  and the sign of zero are not modelled; a zero divisor is the positive zero. Division by
  zero does not raise in numpy (it warns): it yields \<open>nan\<close> or an infinity.
\<close>

datatype npfloat = Fin real | PInf | NInf | NaN

definition np_inf :: "bool \<Rightarrow> npfloat" where
  "np_inf positive = (if positive then PInf else NInf)"

fun is_finite :: "npfloat \<Rightarrow> bool" where
  "is_finite (Fin a) = True"
| "is_finite v = False"

fun np_neg :: "npfloat \<Rightarrow> npfloat" where
  "np_neg (Fin a) = Fin (- a)"
| "np_neg PInf = NInf"
| "np_neg NInf = PInf"
| "np_neg NaN = NaN"

fun np_add :: "npfloat \<Rightarrow> npfloat \<Rightarrow> npfloat" where
  "np_add (Fin a) (Fin b) = Fin (a + b)"
| "np_add NaN b = NaN"
| "np_add a NaN = NaN"
| "np_add PInf NInf = NaN"
| "np_add NInf PInf = NaN"
| "np_add PInf b = PInf"
| "np_add a PInf = PInf"
| "np_add NInf b = NInf"
| "np_add a NInf = NInf"

definition np_sub :: "npfloat \<Rightarrow> npfloat \<Rightarrow> npfloat" where
  "np_sub a b = np_add a (np_neg b)"

fun np_mul :: "npfloat \<Rightarrow> npfloat \<Rightarrow> npfloat" where
  "np_mul (Fin a) (Fin b) = Fin (a * b)"
| "np_mul NaN b = NaN"
| "np_mul a NaN = NaN"
| "np_mul PInf (Fin b) = (if b = 0 then NaN else np_inf (0 < b))"
| "np_mul NInf (Fin b) = (if b = 0 then NaN else np_inf (b < 0))"
| "np_mul (Fin a) PInf = (if a = 0 then NaN else np_inf (0 < a))"
| "np_mul (Fin a) NInf = (if a = 0 then NaN else np_inf (a < 0))"
| "np_mul PInf PInf = PInf"
| "np_mul NInf NInf = PInf"
| "np_mul PInf NInf = NInf"
| "np_mul NInf PInf = NInf"

fun np_div :: "npfloat \<Rightarrow> npfloat \<Rightarrow> npfloat" where
  "np_div (Fin a) (Fin b) =
     (if b \<noteq> 0 then Fin (a / b) else if a = 0 then NaN else np_inf (0 < a))"
| "np_div NaN b = NaN"
| "np_div a NaN = NaN"
| "np_div (Fin a) PInf = Fin 0"
| "np_div (Fin a) NInf = Fin 0"
| "np_div PInf (Fin b) = np_inf (0 \<le> b)"
| "np_div NInf (Fin b) = np_inf (b < 0)"
| "np_div PInf PInf = NaN"
| "np_div PInf NInf = NaN"
| "np_div NInf PInf = NaN"
| "np_div NInf NInf = NaN"

fun np_sqrt :: "npfloat \<Rightarrow> npfloat" where
  "np_sqrt (Fin a) = (if 0 \<le> a then Fin (sqrt a) else NaN)"
| "np_sqrt PInf = PInf"
| "np_sqrt NInf = NaN"
| "np_sqrt NaN = NaN"

text \<open>\<open>np.sum\<close>, \<open>np.mean\<close> and \<open>np.linalg.norm\<close> of a one-dimensional array. The
  mean of an empty array is \<open>0 / 0 = nan\<close>.\<close>

definition np_sum :: "npfloat list \<Rightarrow> npfloat" where
  "np_sum xs = foldl np_add (Fin 0) xs"

definition np_mean :: "npfloat list \<Rightarrow> npfloat" where
  "np_mean xs = np_div (np_sum xs) (Fin (real (length xs)))"

definition np_norm :: "npfloat list \<Rightarrow> npfloat" where
  "np_norm xs = np_sqrt (np_sum (map (\<lambda>v. np_mul v v) xs))"

text \<open>\<open>a + b\<close> on one-dimensional arrays: equal lengths add elementwise, a one-element
  array is broadcast, anything else raises.\<close>

definition np_array_add :: "npfloat list \<Rightarrow> npfloat list \<Rightarrow> error + npfloat list" where
  "np_array_add a b =
     (if length a = length b then Inr (map2 np_add a b)
      else if length a = 1 then Inr (map (np_add (hd a)) b)
      else if length b = 1 then Inr (map (\<lambda>v. np_add v (hd b)) a)
      else Inl BroadcastError)"

section \<open>general.py: rms, setdbspl, make_same_length\<close>

text \<open>Signals are one-dimensional arrays, so \<open>axis = -1\<close> and \<open>x.T\<close> is \<open>x\<close>.\<close>

text \<open>
  The level and the offset are Python floats, and \<open>10. ** y\<close> is Python's float power:
  it raises \<open>OverflowError\<close> when the result is beyond the largest float,
  \<open>(2 - 2 ** -52) * 2 ** 1023\<close>. (A result too small for a float underflows to zero
  without an error; like all rounding, that is not modelled.)
\<close>

definition float_max :: real where
  "float_max = 2 ^ 1024 - 2 ^ 971"

definition py_pow10 :: "real \<Rightarrow> error + real" where
  "py_pow10 y = (if float_max < 10 powr y then Inl OverflowError else Inr (10 powr y))"

type_synonym signal = "npfloat list"

definition rms :: "signal \<Rightarrow> bool \<Rightarrow> npfloat" where
  "rms x ac =
     (let n = Fin (sqrt (real (length x))) in
      if ac then np_norm (map (\<lambda>v. np_div (np_sub v (np_mean x)) n) x)
      else np_norm (map (\<lambda>v. np_div v n) x))"

definition setdbspl :: "signal \<Rightarrow> real \<Rightarrow> bool \<Rightarrow> real \<Rightarrow> error + signal" where
  "setdbspl x lvl ac offset =
     (let r = rms x ac in
      case py_pow10 ((lvl - offset) / 20) of
        Inl e \<Rightarrow> Inl e
      | Inr gain \<Rightarrow> Inr (map (\<lambda>v. np_mul (np_div v r) (Fin gain)) x))"

text \<open>
  The root mean square in the spec's words, for a signal of real samples: the square root
  of the mean of the squares, taken after removing the mean when only the AC component
  counts. It is compared with \<open>rms\<close> below.
\<close>

definition rms_spec :: "real list \<Rightarrow> bool \<Rightarrow> real" where
  "rms_spec xs ac =
     (let m = (if ac then sum_list xs / real (length xs) else 0)
      in sqrt (sum_list (map (\<lambda>v. (v - m)\<^sup>2) xs) / real (length xs)))"

text \<open>\<open>c[:len(a)] += a\<close> for \<open>len(a) <= len(c)\<close>.\<close>

definition add_into_prefix :: "signal \<Rightarrow> signal \<Rightarrow> signal" where
  "add_into_prefix c a = map2 np_add (take (length a) c) a @ drop (length a) c"

definition make_same_length :: "signal \<Rightarrow> signal \<Rightarrow> bool \<Rightarrow> signal \<times> signal" where
  "make_same_length a b extend_first =
     (if length a < length b then
        (if extend_first then (add_into_prefix (replicate (length b) (Fin 0)) a, b)
         else (a, take (length a) b))
      else (a, add_into_prefix (replicate (length a) (Fin 0)) b))"

section \<open>experiment.py: data\<close>

text \<open>
  Distortion parameters are \<open>None\<close>, a dict or a list/tuple; \<open>'v\<close> is the type of the
  parameter values. \<open>if params:\<close> is false for \<open>None\<close> and for an empty container.
\<close>

datatype 'v params = PNone | PDict "(string \<times> 'v) list" | PSeq "'v list"

fun params_truth :: "'v params \<Rightarrow> bool" where
  "params_truth PNone = False"
| "params_truth (PDict kvs) = (kvs \<noteq> [])"
| "params_truth (PSeq vs) = (vs \<noteq> [])"

text \<open>
  The dict \<open>res['p']\<close> returned by a model: named outputs, in iteration order.
\<close>

type_synonym prediction = "(string \<times> real) list"

text \<open>
  A model is an external object: its \<open>predict\<close> method, its optional \<open>name\<close> attribute and
  the name of its class. The material likewise; \<open>load_files\<close> and \<open>ssn\<close> draw from the
  random generator, whose state is \<open>'w\<close>.
\<close>

record model =
  predict :: "signal \<Rightarrow> signal \<Rightarrow> signal \<Rightarrow> prediction"
  model_name_attr :: "string option"
  model_class_name :: string

record 'w material =
  load_files :: "nat option \<Rightarrow> 'w \<Rightarrow> signal list \<times> 'w"
  ssn :: "signal \<Rightarrow> 'w \<Rightarrow> signal \<times> 'w"
  material_name_attr :: "string option"
  material_class_name :: string

text \<open>
  The attributes of \<open>Experiment\<close> that the modelled methods read, and those
  \<open>AdaptiveExperiment.__init__\<close> adds.
\<close>

record ('v, 'w) Experiment =
  models :: "model list"
  material :: "'w material"
  distortion :: "signal \<Rightarrow> signal \<Rightarrow> 'v params \<Rightarrow> signal \<times> signal"
  dist_params :: "'v params list"
  fixed_level :: real
  fixed_target :: bool
  adjust_levels_bef_proc :: bool

record ('v, 'w) AdaptiveExperiment = "('v, 'w) Experiment" +
  pred_keys_and_thresholds :: "(string \<times> real) list"
  start_snr :: real
  step_sizes :: "real list"
  n_test_reversals :: int
  change_step_on :: int

text \<open>A cell of the result table, and a row: the dict \<open>d\<close> appended to the DataFrame.\<close>

datatype 'v cell =
    CFloat npfloat
  | CReal real
  | CInt int
  | CStr string
  | CPred prediction
  | CParams "'v params"
  | CVal 'v

type_synonym 'v row = "string \<rightharpoonup> 'v cell"

section \<open>experiment.py: Experiment\<close>

definition adjust_levels ::
  "('v, 'w, 'z) Experiment_scheme \<Rightarrow> signal \<Rightarrow> signal \<Rightarrow> real
     \<Rightarrow> error + signal \<times> signal" where
  "adjust_levels self target masker snr =
     (let target_level = fixed_level self;
          masker_level = fixed_level self;
          (target_level, masker_level) =
             (if fixed_target self then (target_level, masker_level - snr)
              else (target_level + snr, masker_level))
      in case setdbspl target target_level False 100 of
           Inl e \<Rightarrow> Inl e
         | Inr target \<Rightarrow>
             (case setdbspl masker masker_level False 100 of
                Inl e \<Rightarrow> Inl e
              | Inr masker \<Rightarrow> Inr (target, masker)))"

definition preprocessing ::
  "('v, 'w, 'z) Experiment_scheme \<Rightarrow> signal \<Rightarrow> signal \<Rightarrow> real \<Rightarrow> 'v params
     \<Rightarrow> error + signal \<times> signal \<times> signal" where
  "preprocessing self target masker snr params =
     (let (target, masker) =
             (if length target \<noteq> length masker then make_same_length target masker False
              else (target, masker))
      in case (if adjust_levels_bef_proc self then adjust_levels self target masker snr
               else Inr (target, masker)) of
           Inl e \<Rightarrow> Inl e
         | Inr (target, masker) \<Rightarrow>
             let (target, masker) =
                    (if params_truth params then distortion self target masker params
                     else (target, masker))
             in case (if \<not> adjust_levels_bef_proc self
                      then adjust_levels self target masker snr
                      else Inr (target, masker)) of
                  Inl e \<Rightarrow> Inl e
                | Inr (target, masker) \<Rightarrow>
                    (case np_array_add target masker of
                       Inl e \<Rightarrow> Inl e
                     | Inr mix \<Rightarrow> Inr (target, mix, masker)))"

definition next_masker ::
  "('v, 'w, 'z) Experiment_scheme \<Rightarrow> signal \<Rightarrow> 'v params \<Rightarrow> 'w \<Rightarrow> signal \<times> 'w" where
  "next_masker self target params w = ssn (material self) target w"

text \<open>
  \<open>append_results\<close>: the keyword arguments \<open>kwargs\<close> are accepted and never read. The loop
  over \<open>res['p']\<close> writes two keys of \<open>d\<close> and appends a copy of \<open>d\<close> each time.
\<close>

definition append_results ::
  "('v, 'w, 'z) Experiment_scheme \<Rightarrow> 'v row list \<Rightarrow> prediction \<Rightarrow> model \<Rightarrow> real \<Rightarrow> nat
     \<Rightarrow> 'v params \<Rightarrow> (string \<times> 'v cell) list \<Rightarrow> 'v row list" where
  "append_results self df res model snr i_target params kwargs =
     (let model_name =
            (case model_name_attr model of Some n \<Rightarrow> n | None \<Rightarrow> model_class_name model);
          material_name =
            (case material_name_attr (material self) of
               Some n \<Rightarrow> n
             | None \<Rightarrow> material_class_name (material self));
          d = [''SNR'' \<mapsto> CReal snr,
               ''Model'' \<mapsto> CStr model_name,
               ''Sentence number'' \<mapsto> CInt (int i_target),
               ''Full Prediction'' \<mapsto> CPred res,
               ''Material'' \<mapsto> CStr material_name];
          d = (case params of
                 PDict kvs \<Rightarrow> foldl (\<lambda>d (k, v). d(k \<mapsto> CVal v)) d kvs
               | _ \<Rightarrow> d(''Distortion params'' \<mapsto> CParams params))
      in snd (foldl (\<lambda>(d, df) (name, value).
                       let d = d(''Output'' \<mapsto> CStr name, ''Value'' \<mapsto> CReal value)
                       in (d, df @ [d]))
                (d, df) res))"

text \<open>\<open>prediction\<close>, a static method: \<open>model.predict(target, mix, masker)\<close>.\<close>

definition prediction :: "model \<Rightarrow> signal \<Rightarrow> signal \<Rightarrow> signal \<Rightarrow> prediction" where
  "prediction model target mix masker = predict model target mix masker"

section \<open>experiment.py: AdaptiveExperiment.run\<close>

text \<open>Python list indexing and the slice \<open>xs[i:]\<close>, for any integer \<open>i\<close>.\<close>

definition py_index :: "'a list \<Rightarrow> int \<Rightarrow> error + 'a" where
  "py_index xs i =
     (let n = int (length xs);
          j = (if i < 0 then i + n else i)
      in if j < 0 \<or> n \<le> j then Inl IndexError else Inr (xs ! nat j))"

definition py_slice_from :: "'a list \<Rightarrow> int \<Rightarrow> 'a list" where
  "py_slice_from xs i =
     (let n = int (length xs);
          start = (if i < 0 then max (i + n) 0 else min i n)
      in drop (nat start) xs)"

text \<open>
  The local variables of \<open>run\<close> that the \<open>while\<close> loop reads or writes. \<open>res\<close> is unbound
  (\<open>None\<close>) until the first prediction of the run; \<open>mix\<close> is only passed on to the model
  in the iteration that computes it and is not kept.
\<close>

record local_vars =
  target :: signal
  masker :: signal
  snr :: real
  res :: "prediction option"
  test_reversals :: int
  total_reversals :: int
  last_reversal_sign :: int
  i_step :: int
  all_res :: "(real \<times> real) list"

text \<open>
  Lines 763 to 787: the bookkeeping of one iteration, given the prediction \<open>pred\<close>.
  \<open>self.step_sizes[i_step]\<close> is read in either branch before anything else changes.
\<close>

definition record_prediction ::
  "('v, 'w, 'z) AdaptiveExperiment_scheme \<Rightarrow> real \<Rightarrow> real \<Rightarrow> local_vars \<Rightarrow> error + local_vars" where
  "record_prediction self threshold pred l =
     (let l = l\<lparr>all_res := all_res l @ [(snr l, pred)]\<rparr> in
      case py_index (step_sizes self) (i_step l) of
        Inl e \<Rightarrow> Inl e
      | Inr step \<Rightarrow>
          let l =
            (if threshold \<le> pred then
               let l = l\<lparr>snr := snr l - step\<rparr> in
               if 0 < last_reversal_sign l then
                 let l = l\<lparr>last_reversal_sign := - 1\<rparr>;
                     l = l\<lparr>i_step := min (i_step l + 1) (int (length (step_sizes self)) - 1)\<rparr>
                 in if i_step l = int (length (step_sizes self)) - 1
                    then l\<lparr>test_reversals := test_reversals l + 1\<rparr>
                    else l
               else l
             else
               let l = l\<lparr>snr := snr l + step\<rparr> in
               if last_reversal_sign l < 0 then
                 let l = l\<lparr>last_reversal_sign := 1\<rparr>
                 in if i_step l = int (length (step_sizes self)) - 1
                    then l\<lparr>test_reversals := test_reversals l + 1\<rparr>
                    else l
               else l)
          in Inr (l\<lparr>total_reversals := total_reversals l + 1\<rparr>))"

text \<open>Lines 752 to 787: one pass through the body of the \<open>while\<close> loop.\<close>

definition iteration ::
  "('v, 'w, 'z) AdaptiveExperiment_scheme \<Rightarrow> model \<Rightarrow> 'v params \<Rightarrow> string \<Rightarrow> real
     \<Rightarrow> local_vars \<Rightarrow> error + local_vars" where
  "iteration self model params pred_key threshold l =
     (case preprocessing self (target l) (masker l) (snr l) params of
        Inl e \<Rightarrow> Inl e
      | Inr (t, mix, m) \<Rightarrow>
          let l = l\<lparr>target := t, masker := m\<rparr>;
              r = prediction model (target l) mix (masker l);
              l = l\<lparr>res := Some r\<rparr>
          in case map_of r pred_key of
               None \<Rightarrow> Inl KeyError
             | Some pred \<Rightarrow> record_prediction self threshold pred l)"

text \<open>
  A \<open>while\<close> loop whose body may raise. The loop need not terminate: the result is
  \<open>None\<close> when it runs forever.
\<close>

partial_function (option) while_loop ::
  "('s \<Rightarrow> bool) \<Rightarrow> ('s \<Rightarrow> error + 's) \<Rightarrow> 's \<Rightarrow> (error + 's) option" where
  "while_loop cond body s =
     (if cond s then
        (case body s of
           Inl e \<Rightarrow> Some (Inl e)
         | Inr s' \<Rightarrow> while_loop cond body s')
      else Some (Inr s))"

text \<open>Line 750: the staircase.\<close>

definition staircase ::
  "('v, 'w, 'z) AdaptiveExperiment_scheme \<Rightarrow> model \<Rightarrow> 'v params \<Rightarrow> string \<Rightarrow> real
     \<Rightarrow> local_vars \<Rightarrow> (error + local_vars) option" where
  "staircase self model params pred_key threshold l =
     while_loop (\<lambda>l. test_reversals l \<le> n_test_reversals self)
       (iteration self model params pred_key threshold) l"

text \<open>Line 789: \<open>np.mean([each[0] for each in all_res[-self.n_test_reversals:]])\<close>.\<close>

definition srt_of :: "('v, 'w, 'z) AdaptiveExperiment_scheme \<Rightarrow> local_vars \<Rightarrow> npfloat" where
  "srt_of self l =
     np_mean (map (\<lambda>each. Fin (fst each)) (py_slice_from (all_res l) (- n_test_reversals self)))"


text \<open>
  The groups the \<open>for\<close> loop visits:
  \<open>product(enumerate(targets), self.dist_params, zip(self.models, self.pred_keys_and_thresholds))\<close>.
\<close>

type_synonym 'v condition = "(nat \<times> signal) \<times> 'v params \<times> (model \<times> (string \<times> real))"

definition conditions ::
  "('v, 'w, 'z) AdaptiveExperiment_scheme \<Rightarrow> signal list \<Rightarrow> 'v condition list" where
  "conditions self targets =
     [(i_and_target, params, model_and_keys).
        i_and_target \<leftarrow> zip [0..<length targets] targets,
        params \<leftarrow> dist_params self,
        model_and_keys \<leftarrow> zip (models self) (pred_keys_and_thresholds self)]"

text \<open>Lines 743 to 749: the variables as they are when the \<open>while\<close> loop is entered.
  \<open>res\<close> keeps the value the previous group left, if any.\<close>

definition loop_entry ::
  "('v, 'w, 'z) AdaptiveExperiment_scheme \<Rightarrow> signal \<Rightarrow> signal \<Rightarrow> prediction option
     \<Rightarrow> local_vars" where
  "loop_entry self tgt msk r =
     \<lparr>target = tgt, masker = msk, snr = start_snr self, res = r,
      test_reversals = 0, total_reversals = 0, last_reversal_sign = - 1,
      i_step = 0, all_res = []\<rparr>"

text \<open>
  What one pass of the \<open>for\<close> loop carries to the next: the DataFrame, \<open>res\<close> and the
  state of the random generator.
\<close>

type_synonym ('v, 'w) carried = "'v row list \<times> prediction option \<times> 'w"

text \<open>The staircase of one group (lines 737 to 787) and the whole body (to line 800).\<close>

definition group_staircase ::
  "('v, 'w, 'z) AdaptiveExperiment_scheme \<Rightarrow> 'v condition \<Rightarrow> ('v, 'w) carried
     \<Rightarrow> (error + local_vars) option" where
  "group_staircase self c v =
     (case c of ((i_target, tgt), params, (model, (pred_key, threshold))) \<Rightarrow>
      case v of (df, r, w) \<Rightarrow>
        let (msk, w) = next_masker self tgt params w
        in staircase self model params pred_key threshold (loop_entry self tgt msk r))"

definition run_group ::
  "('v, 'w, 'z) AdaptiveExperiment_scheme \<Rightarrow> 'v condition \<Rightarrow> ('v, 'w) carried
     \<Rightarrow> (error + ('v, 'w) carried) option" where
  "run_group self c v =
     (case c of ((i_target, tgt), params, (model, (pred_key, threshold))) \<Rightarrow>
      case v of (df, r, w) \<Rightarrow>
        let (msk, w) = next_masker self tgt params w
        in case staircase self model params pred_key threshold (loop_entry self tgt msk r) of
             None \<Rightarrow> None
           | Some (Inl e) \<Rightarrow> Some (Inl e)
           | Some (Inr l) \<Rightarrow>
               let srt = srt_of self l
               in case res l of
                    None \<Rightarrow> Some (Inl UnboundLocalError)
                  | Some r' \<Rightarrow>
                      Some (Inr (append_results self df r' model (snr l) i_target params
                                   [(''SRT'', CFloat srt),
                                    (''Reversals'', CInt (total_reversals l))],
                                 Some r', w)))"

fun run_groups ::
  "('v, 'w, 'z) AdaptiveExperiment_scheme \<Rightarrow> 'v condition list \<Rightarrow> ('v, 'w) carried
     \<Rightarrow> (error + ('v, 'w) carried) option" where
  "run_groups self [] v = Some (Inr v)"
| "run_groups self (c # cs) v =
     (case run_group self c v of
        None \<Rightarrow> None
      | Some (Inl e) \<Rightarrow> Some (Inl e)
      | Some (Inr v') \<Rightarrow> run_groups self cs v')"

text \<open>
  \<open>AdaptiveExperiment.run\<close>. \<open>np_random_seed\<close> is the generator state that
  \<open>np.random.seed(seed)\<close> sets; \<open>parallel\<close> is accepted and not read.
\<close>

definition run ::
  "(int \<Rightarrow> 'w) \<Rightarrow> ('v, 'w, 'z) AdaptiveExperiment_scheme \<Rightarrow> nat option \<Rightarrow> int \<Rightarrow> bool
     \<Rightarrow> (error + 'v row list) option" where
  "run np_random_seed self n seed parallel =
     (let w = np_random_seed seed;
          (targets, w) = load_files (material self) n w
      in case run_groups self (conditions self targets) ([], None, w) of
           None \<Rightarrow> None
         | Some (Inl e) \<Rightarrow> Some (Inl e)
         | Some (Inr (df, r, w)) \<Rightarrow> Some (Inr df))"

section \<open>An example configuration\<close>

text \<open>
  A concrete experiment on which the theorems below are evaluated. The signals have one
  sample. The model reports the ratio of the target's sample to the masker's as its
  output \<open>snr_env\<close>; the criterion on it is \<open>5\<close>. There is no distortion, the target
  is held at level \<open>100\<close>, and the staircase starts at \<open>0\<close> dB.
\<close>

definition ratio_model :: model where
  "ratio_model =
     \<lparr>predict = (\<lambda>t mx m.
          [(''snr_env'', (case (t, m) of (Fin a # _, Fin b # _) \<Rightarrow> a / b | _ \<Rightarrow> 0))]),
      model_name_attr = Some ''ratio'',
      model_class_name = ''Ratio''\<rparr>"

definition example_material :: "unit material" where
  "example_material =
     \<lparr>load_files = (\<lambda>n w. ([[Fin 2]], w)),
      ssn = (\<lambda>t w. ([Fin 2], w)),
      material_name_attr = None,
      material_class_name = ''Material''\<rparr>"

definition example_experiment :: "real list \<Rightarrow> int \<Rightarrow> (real, unit) AdaptiveExperiment" where
  "example_experiment steps n =
     \<lparr>models = [ratio_model],
      material = example_material,
      distortion = (\<lambda>t m p. (t, m)),
      dist_params = [PNone],
      fixed_level = 100,
      fixed_target = True,
      adjust_levels_bef_proc = False,
      pred_keys_and_thresholds = [(''snr_env'', 5)],
      start_snr = 0,
      step_sizes = steps,
      n_test_reversals = n,
      change_step_on = - 1\<rparr>"

text \<open>The only group of the example: sentence \<open>0\<close>, no distortion parameters.\<close>

definition example_condition :: "real condition" where
  "example_condition = ((0, [Fin 2]), PNone, (ratio_model, (''snr_env'', 5)))"

section \<open>Properties of int2srt\<close>

lemma filter_upt_single:
  assumes "i < n" and "P i" and "\<forall>j<n. j \<noteq> i \<longrightarrow> \<not> P j"
  shows "filter P [0..<n] = [i]"
  using assms
proof (induction n)
  case 0
  then show ?case by simp
next
  case (Suc n)
  show ?case
  proof (cases "i = n")
    case True
    have "filter P [0..<n] = []"
      using Suc.prems(3) True by (auto simp: filter_empty_conv)
    with True Suc.prems(2) show ?thesis by simp
  next
    case False
    with Suc.prems have "i < n" by simp
    moreover have "\<forall>j<n. j \<noteq> i \<longrightarrow> \<not> P j" using Suc.prems(3) by simp
    ultimately have "filter P [0..<n] = [i]" using Suc.IH Suc.prems(2) by blast
    moreover have "\<not> P n" using Suc.prems(3) False by simp
    ultimately show ?thesis by simp
  qed
qed

lemma filter_upt_none:
  assumes "\<forall>j<n. \<not> P j"
  shows "filter P [0..<n] = []"
  using assms by (auto simp: filter_empty_conv)

lemma array_truth_not_lengths: "array_truth idx \<noteq> Inl DifferentLengths"
  by (cases idx rule: array_truth.cases) simp_all

lemma filter_upt_two:
  assumes "i < j" and "j < n" and "P i" and "P j"
  shows "2 \<le> length (filter P [0..<n])"
proof -
  have "{i, j} \<subseteq> {x. P x} \<inter> set [0..<n]" using assms by auto
  then have "card {i, j} \<le> card ({x. P x} \<inter> set [0..<n])"
    by (intro card_mono) auto
  moreover have "card {i, j} = 2" using assms(1) by simp
  moreover have "length (filter P [0..<n]) = card ({x. P x} \<inter> set [0..<n])"
    by (rule distinct_length_filter) simp
  ultimately show ?thesis by simp
qed

lemma array_truth_many: "2 \<le> length idx \<Longrightarrow> array_truth idx = Inl AmbiguousTruthValue"
  by (cases idx rule: array_truth.cases) simp_all

section \<open>Properties of rms and setdbspl\<close>

lemma foldl_np_add_Fin: "foldl np_add (Fin a) (map Fin xs) = Fin (a + sum_list xs)"
  by (induction xs arbitrary: a) (simp_all add: add.assoc)

lemma np_sum_Fin: "np_sum (map Fin xs) = Fin (sum_list xs)"
  by (simp add: np_sum_def foldl_np_add_Fin)

lemma np_sum_zeros: "np_sum (replicate n (Fin 0)) = Fin 0"
  using np_sum_Fin [of "replicate n 0"] by (simp add: sum_list_replicate)

lemma rms_zeros: "rms (replicate n (Fin 0)) False = Fin 0"
proof (cases "n = 0")
  case True
  then show ?thesis by (simp add: rms_def np_norm_def np_sum_def)
next
  case False
  then show ?thesis
    by (simp add: rms_def np_norm_def np_sum_zeros)
qed

lemma np_mean_Fin:
  "xs \<noteq> [] \<Longrightarrow> np_mean (map Fin xs) = Fin (sum_list xs / real (length xs))"
  by (simp add: np_mean_def np_sum_Fin)

lemma sum_list_nonneg_sq: "0 \<le> sum_list (map (\<lambda>v. (f v :: real)\<^sup>2) xs)"
  by (rule sum_list_nonneg) auto

lemma sum_list_divide_const:
  "sum_list (map (\<lambda>v. f v / (c::real)) xs) = sum_list (map f xs) / c"
  by (induction xs) (simp_all add: add_divide_distrib)

lemma norm_scaled:
  assumes "xs \<noteq> []"
  shows "np_norm (map (\<lambda>v. np_div (Fin (v - m)) (Fin (sqrt (real (length xs))))) xs)
         = Fin (sqrt (sum_list (map (\<lambda>v. (v - m)\<^sup>2) xs) / real (length xs)))"
proof -
  let ?n = "real (length xs)"
  have n: "0 < ?n" using assms by simp
  have elem: "np_mul (np_div (Fin (v - m)) (Fin (sqrt ?n))) (np_div (Fin (v - m)) (Fin (sqrt ?n)))
              = Fin ((v - m)\<^sup>2 / ?n)" for v
  proof -
    have "sqrt ?n \<noteq> 0" using n by simp
    moreover have "(v - m) / sqrt ?n * ((v - m) / sqrt ?n) = (v - m)\<^sup>2 / ?n"
      using n by (simp add: power2_eq_square)
    ultimately show ?thesis by simp
  qed
  have "map (\<lambda>v. np_mul v v) (map (\<lambda>v. np_div (Fin (v - m)) (Fin (sqrt ?n))) xs)
        = map Fin (map (\<lambda>v. (v - m)\<^sup>2 / ?n) xs)"
    unfolding map_map comp_def using elem by simp
  then have "np_sum (map (\<lambda>v. np_mul v v) (map (\<lambda>v. np_div (Fin (v - m)) (Fin (sqrt ?n))) xs))
        = Fin (sum_list (map (\<lambda>v. (v - m)\<^sup>2) xs) / ?n)"
    by (simp only: np_sum_Fin sum_list_divide_const)
  moreover have "0 \<le> sum_list (map (\<lambda>v. (v - m)\<^sup>2) xs) / ?n"
    using n sum_list_nonneg_sq [of "\<lambda>v. v - m" xs] by simp
  ultimately show ?thesis by (simp add: np_norm_def)
qed

lemma rms_Fin: "rms (map Fin xs) ac = Fin (rms_spec xs ac)"
proof (cases "xs = []")
  case True
  then show ?thesis by (simp add: rms_def rms_spec_def np_norm_def np_sum_def Let_def)
next
  case False
  show ?thesis
  proof (cases ac)
    case True
    have "np_mean (map Fin xs) = Fin (sum_list xs / real (length xs))"
      using np_mean_Fin [OF False] .
    then show ?thesis
      using True norm_scaled [OF False, of "sum_list xs / real (length xs)"]
      by (simp add: rms_def rms_spec_def np_sub_def comp_def)
  next
    case f: False
    then show ?thesis
      using norm_scaled [OF False, of 0]
      by (simp add: rms_def rms_spec_def comp_def)
  qed
qed

lemma rms_spec_zero_iff: "rms_spec xs False = 0 \<longleftrightarrow> (\<forall>v \<in> set xs. v = 0)"
proof (cases "xs = []")
  case True
  then show ?thesis by (simp add: rms_spec_def)
next
  case False
  then have "rms_spec xs False = 0 \<longleftrightarrow> sum_list (map (\<lambda>v. v\<^sup>2) xs) = 0"
    by (simp add: rms_spec_def)
  also have "\<dots> \<longleftrightarrow> (\<forall>v \<in> set xs. v = 0)"
    by (subst sum_list_nonneg_eq_0_iff) auto
  finally show ?thesis .
qed

lemma gain_7000: "float_max < 10 powr ((7000 - 100) / 20)"
proof -
  have "(10::real) powr ((7000 - 100) / 20) = 10 ^ 345"
    by (simp add: powr_numeral)
  moreover have "float_max < (10::real) ^ 345"
    by (simp add: float_max_def)
  ultimately show ?thesis by simp
qed

lemma np_div_zero_not_finite: "\<not> is_finite (np_div v (Fin 0))"
  by (cases v) (simp_all add: np_inf_def)

lemma np_mul_gain_not_finite: "\<not> is_finite v \<Longrightarrow> 0 < g \<Longrightarrow> \<not> is_finite (np_mul v (Fin g))"
  by (cases v) (simp_all add: np_inf_def)

lemma float_max_ge_one: "1 \<le> float_max"
  by (simp add: float_max_def)

lemma py_pow10_small: "y \<le> 0 \<Longrightarrow> py_pow10 y = Inr (10 powr y)"
proof -
  assume "y \<le> 0"
  then have "(10::real) powr y \<le> 10 powr 0"
    by (intro powr_mono) simp_all
  then have "10 powr y \<le> float_max"
    using float_max_ge_one by simp
  then show ?thesis by (simp add: py_pow10_def)
qed

lemma setdbspl_ok:
  "10 powr ((lvl - offset) / 20) \<le> float_max \<Longrightarrow>
   setdbspl x lvl ac offset
     = Inr (map (\<lambda>v. np_mul (np_div v (rms x ac)) (Fin (10 powr ((lvl - offset) / 20)))) x)"
  by (simp add: setdbspl_def py_pow10_def)

lemma gain_low: "(10::real) powr ((65 - 100) / 20) \<le> float_max"
proof -
  have "(10::real) powr ((65 - 100) / 20) \<le> 10 powr 0"
    by (intro powr_mono) simp_all
  then show ?thesis using float_max_ge_one by simp
qed

section \<open>Properties of the staircase loop\<close>

lemma while_loop_rule:
  assumes "while_loop cond body s = Some (Inr s')"
    and "Inv s"
    and "\<And>s s'. Inv s \<Longrightarrow> cond s \<Longrightarrow> body s = Inr s' \<Longrightarrow> Inv s'"
  shows "Inv s' \<and> \<not> cond s'"
proof -
  have "c = cond \<longrightarrow> b = body \<longrightarrow> Inv t \<longrightarrow> (\<forall>s'. y = Inr s' \<longrightarrow> Inv s' \<and> \<not> cond s')"
    if h: "while_loop c b t = Some y" for c b t y
  proof (rule while_loop.raw_induct
      [where P = "\<lambda>c b t y. c = cond \<longrightarrow> b = body \<longrightarrow> Inv t \<longrightarrow>
                    (\<forall>s'. y = Inr s' \<longrightarrow> Inv s' \<and> \<not> cond s')", OF _ h], goal_cases)
    case (1 loop c b s y)
    show ?case
    proof (intro impI allI)
      fix s'
      assume c: "c = cond" and b: "b = body" and inv: "Inv s" and y: "y = Inr s'"
      show "Inv s' \<and> \<not> cond s'"
      proof (cases "cond s")
        case False
        with 1(2) c y inv show ?thesis by simp
      next
        case True
        show ?thesis
        proof (cases "body s")
          case (Inl e)
          with 1(2) True c b y show ?thesis by simp
        next
          case (Inr t)
          with 1(2) True c b have "loop cond body t = Some y" by simp
          moreover have "Inv t" using assms(3) [OF inv True Inr] .
          ultimately show ?thesis using 1(1) y by blast
        qed
      qed
    qed
  qed
  with assms(1,2) show ?thesis by blast
qed

lemma while_loop_exit: "\<not> cond s \<Longrightarrow> while_loop cond body s = Some (Inr s)"
  by (subst while_loop.simps) simp

lemma record_prediction_effect:
  assumes "record_prediction self threshold pred l = Inr l'"
  shows "all_res l' = all_res l @ [(snr l, pred)]"
    and "total_reversals l' = total_reversals l + 1"
    and "test_reversals l \<le> test_reversals l'"
    and "test_reversals l' \<le> test_reversals l + 1"
    and "res l' = res l"
    and "target l' = target l"
    and "masker l' = masker l"
  using assms
  by (auto simp: record_prediction_def Let_def split: sum.splits if_splits)

lemma loop_entry_fields:
  "target (loop_entry self t m r) = t"
  "masker (loop_entry self t m r) = m"
  "snr (loop_entry self t m r) = start_snr self"
  "res (loop_entry self t m r) = r"
  "test_reversals (loop_entry self t m r) = 0"
  "total_reversals (loop_entry self t m r) = 0"
  "last_reversal_sign (loop_entry self t m r) = - 1"
  "i_step (loop_entry self t m r) = 0"
  "all_res (loop_entry self t m r) = []"
  by (simp_all add: loop_entry_def)

lemma iteration_effect:
  assumes "iteration self model params pred_key threshold l = Inr l'"
  shows "length (all_res l') = length (all_res l) + 1"
    and "total_reversals l' = total_reversals l + 1"
    and "test_reversals l \<le> test_reversals l'"
    and "test_reversals l' \<le> test_reversals l + 1"
    and "res l' \<noteq> None"
proof -
  from assms obtain t mx m pred where
    prep: "preprocessing self (target l) (masker l) (snr l) params = Inr (t, mx, m)"
    and rp: "record_prediction self threshold pred
               (l\<lparr>target := t, masker := m, res := Some (prediction model t mx m)\<rparr>) = Inr l'"
    by (auto simp: iteration_def Let_def split: sum.splits option.splits prod.splits)
  from record_prediction_effect [OF rp]
  show "length (all_res l') = length (all_res l) + 1"
    and "total_reversals l' = total_reversals l + 1"
    and "test_reversals l \<le> test_reversals l'"
    and "test_reversals l' \<le> test_reversals l + 1"
    and "res l' \<noteq> None"
    by simp_all
qed

lemma staircase_exit:
  assumes run: "staircase self model params pred_key threshold l0 = Some (Inr l)"
    and t0: "test_reversals l0 = 0"
    and n: "- 1 \<le> n_test_reversals self"
  shows "test_reversals l = n_test_reversals self + 1"
    and "n_test_reversals self + 1 \<le> int (length (all_res l))"
proof -
  let ?Inv = "\<lambda>l. test_reversals l \<le> n_test_reversals self + 1
                 \<and> test_reversals l \<le> int (length (all_res l))"
  have "?Inv l \<and> \<not> test_reversals l \<le> n_test_reversals self"
  proof (rule while_loop_rule [where Inv = ?Inv, OF run [unfolded staircase_def]])
    show "?Inv l0" using t0 n by simp
  next
    fix s s'
    assume "?Inv s" "test_reversals s \<le> n_test_reversals self"
      "iteration self model params pred_key threshold s = Inr s'"
    then show "?Inv s'"
      using iteration_effect(1,4) [of self model params pred_key threshold s s'] by simp
  qed
  then show "test_reversals l = n_test_reversals self + 1"
    and "n_test_reversals self + 1 \<le> int (length (all_res l))"
    by simp_all
qed

lemma staircase_no_iteration:
  "n_test_reversals self < 0 \<Longrightarrow>
   staircase self model params pred_key threshold (loop_entry self tgt msk r)
     = Some (Inr (loop_entry self tgt msk r))"
  unfolding staircase_def by (rule while_loop_exit) (simp add: loop_entry_fields)

section \<open>The attribute change_step_on\<close>

lemma adjust_levels_ignores:
  "adjust_levels (self\<lparr>change_step_on := a\<rparr>) = adjust_levels self"
  by (simp add: adjust_levels_def fun_eq_iff Let_def cong: if_cong)

lemma preprocessing_ignores:
  "preprocessing (self\<lparr>change_step_on := a\<rparr>) = preprocessing self"
  by (simp add: preprocessing_def fun_eq_iff adjust_levels_ignores Let_def cong: if_cong sum.case_cong)

lemma record_prediction_ignores:
  "record_prediction (self\<lparr>change_step_on := a\<rparr>) = record_prediction self"
  by (simp add: record_prediction_def fun_eq_iff Let_def cong: if_cong sum.case_cong)

lemma iteration_ignores:
  "iteration (self\<lparr>change_step_on := a\<rparr>) = iteration self"
  by (simp add: iteration_def fun_eq_iff preprocessing_ignores record_prediction_ignores Let_def
      cong: sum.case_cong option.case_cong)

lemma staircase_ignores:
  "staircase (self\<lparr>change_step_on := a\<rparr>) = staircase self"
  by (simp add: staircase_def fun_eq_iff iteration_ignores)

lemma run_group_ignores:
  "run_group (self\<lparr>change_step_on := a\<rparr>) = run_group self"
  by (simp add: run_group_def fun_eq_iff staircase_ignores srt_of_def append_results_def
      next_masker_def loop_entry_def Let_def
      cong: if_cong sum.case_cong option.case_cong prod.case_cong)

lemma run_groups_ignores:
  "run_groups (self\<lparr>change_step_on := a\<rparr>) cs v = run_groups self cs v"
  by (induction cs arbitrary: v)
    (simp_all add: run_group_ignores cong: option.case_cong sum.case_cong)

lemma run_ignores:
  "run np_random_seed (self\<lparr>change_step_on := a\<rparr>) n seed parallel
   = run np_random_seed self n seed parallel"
  by (simp add: run_def run_groups_ignores conditions_def)

lemma group_staircase_ignores:
  "group_staircase (self\<lparr>change_step_on := a\<rparr>) = group_staircase self"
  by (simp add: group_staircase_def fun_eq_iff staircase_ignores next_masker_def loop_entry_def
      cong: prod.case_cong)

lemma srt_of_ignores:
  "srt_of (self\<lparr>change_step_on := a\<rparr>) = srt_of self"
  by (simp add: srt_of_def fun_eq_iff)

section \<open>The example configuration, evaluated\<close>

lemma rms_single: "rms [Fin a] False = Fin \<bar>a\<bar>"
  by (simp add: rms_def np_norm_def np_sum_def)

lemma setdbspl_single:
  "a \<noteq> 0 \<Longrightarrow> lvl \<le> offset \<Longrightarrow>
   setdbspl [Fin a] lvl False offset = Inr [Fin (a / \<bar>a\<bar> * 10 powr ((lvl - offset) / 20))]"
  by (simp add: setdbspl_def rms_single py_pow10_small)

lemma prep0:
  "preprocessing (example_experiment steps n) [Fin 2] [Fin 2] 0 PNone = Inr ([Fin 1], [Fin 2], [Fin 1])"
  by (simp add: preprocessing_def adjust_levels_def example_experiment_def setdbspl_single np_array_add_def)

lemma prep1:
  "preprocessing (example_experiment steps n) [Fin 1] [Fin 1] 20 PNone = Inr ([Fin 1], [Fin (11/10)], [Fin (1/10)])"
  by (simp add: preprocessing_def adjust_levels_def example_experiment_def setdbspl_single np_array_add_def powr_minus)

lemma example_fields:
  "step_sizes (example_experiment steps n) = steps"
  "start_snr (example_experiment steps n) = 0"
  "n_test_reversals (example_experiment steps n) = n"
  "models (example_experiment steps n) = [ratio_model]"
  "pred_keys_and_thresholds (example_experiment steps n) = [(''snr_env'', 5)]"
  "dist_params (example_experiment steps n) = [PNone]"
  "material (example_experiment steps n) = example_material"
  by (simp_all add: example_experiment_def)

lemma ratio_model_predict:
  "prediction ratio_model [Fin a] mx [Fin b] = [(''snr_env'', a / b)]"
  by (simp add: prediction_def ratio_model_def)

lemma it0:
  "iteration (example_experiment [20] n) ratio_model PNone ''snr_env'' 5
     (loop_entry (example_experiment [20] n) [Fin 2] [Fin 2] None)
   = Inr \<lparr>target = [Fin 1], masker = [Fin 1], snr = 20, res = Some [(''snr_env'', 1)],
          test_reversals = 1, total_reversals = 1, last_reversal_sign = 1, i_step = 0,
          all_res = [(0, 1)]\<rparr>"
  by (simp add: iteration_def loop_entry_def prep0 ratio_model_predict
      record_prediction_def py_index_def example_fields)

lemma it1:
  "iteration (example_experiment [20] n) ratio_model PNone ''snr_env'' 5
     \<lparr>target = [Fin 1], masker = [Fin 1], snr = 20, res = Some [(''snr_env'', 1)],
          test_reversals = 1, total_reversals = 1, last_reversal_sign = 1, i_step = 0,
          all_res = [(0, 1)]\<rparr>
   = Inr \<lparr>target = [Fin 1], masker = [Fin (1/10)], snr = 0, res = Some [(''snr_env'', 10)],
          test_reversals = 2, total_reversals = 2, last_reversal_sign = - 1, i_step = 0,
          all_res = [(0, 1), (20, 10)]\<rparr>"
  by (simp add: iteration_def prep1 ratio_model_predict
      record_prediction_def py_index_def example_fields)

lemma stair1:
  "staircase (example_experiment [20] 1) ratio_model PNone ''snr_env'' 5
     (loop_entry (example_experiment [20] 1) [Fin 2] [Fin 2] None)
   = Some (Inr \<lparr>target = [Fin 1], masker = [Fin (1/10)], snr = 0, res = Some [(''snr_env'', 10)],
          test_reversals = 2, total_reversals = 2, last_reversal_sign = - 1, i_step = 0,
          all_res = [(0, 1), (20, 10)]\<rparr>)"
  unfolding staircase_def
  apply (subst while_loop.simps)
  apply (simp add: loop_entry_fields example_fields it0)
  apply (subst while_loop.simps)
  apply (simp add: example_fields it1)
  apply (subst while_loop.simps)
  apply (simp add: example_fields)
  done

lemma stair0:
  "staircase (example_experiment [20] 0) ratio_model PNone ''snr_env'' 5
     (loop_entry (example_experiment [20] 0) [Fin 2] [Fin 2] None)
   = Some (Inr \<lparr>target = [Fin 1], masker = [Fin 1], snr = 20, res = Some [(''snr_env'', 1)],
          test_reversals = 1, total_reversals = 1, last_reversal_sign = 1, i_step = 0,
          all_res = [(0, 1)]\<rparr>)"
  unfolding staircase_def
  apply (subst while_loop.simps)
  apply (simp add: loop_entry_fields example_fields it0)
  apply (subst while_loop.simps)
  apply (simp add: example_fields)
  done

lemma srt_example_1:
  "srt_of (example_experiment [20] 1)
     \<lparr>target = [Fin 1], masker = [Fin (1/10)], snr = 0, res = Some [(''snr_env'', 10)],
      test_reversals = 2, total_reversals = 2, last_reversal_sign = - 1, i_step = 0,
      all_res = [(0, 1), (20, 10)]\<rparr> = Fin 20"
  by (simp add: srt_of_def py_slice_from_def example_fields np_mean_def np_sum_def)

lemma srt_example_0:
  "srt_of (example_experiment [20] 0)
     \<lparr>target = [Fin 1], masker = [Fin 1], snr = 20, res = Some [(''snr_env'', 1)],
      test_reversals = 1, total_reversals = 1, last_reversal_sign = 1, i_step = 0,
      all_res = [(0, 1)]\<rparr> = Fin 0"
  by (simp add: srt_of_def py_slice_from_def example_fields np_mean_def np_sum_def)

lemma group_staircase_example_1:
  "group_staircase (example_experiment [20] 1) example_condition ([], None, ())
   = Some (Inr \<lparr>target = [Fin 1], masker = [Fin (1/10)], snr = 0, res = Some [(''snr_env'', 10)],
          test_reversals = 2, total_reversals = 2, last_reversal_sign = - 1, i_step = 0,
          all_res = [(0, 1), (20, 10)]\<rparr>)"
  by (simp add: group_staircase_def example_condition_def next_masker_def example_fields
      example_material_def stair1)

lemma group_staircase_example_0:
  "group_staircase (example_experiment [20] 0) example_condition ([], None, ())
   = Some (Inr \<lparr>target = [Fin 1], masker = [Fin 1], snr = 20, res = Some [(''snr_env'', 1)],
          test_reversals = 1, total_reversals = 1, last_reversal_sign = 1, i_step = 0,
          all_res = [(0, 1)]\<rparr>)"
  by (simp add: group_staircase_def example_condition_def next_masker_def example_fields
      example_material_def stair0)

lemma run_group_example_1:
  "run_group (example_experiment [20] 1) example_condition ([], None, ())
   = Some (Inr (append_results (example_experiment [20] 1) [] [(''snr_env'', 10)] ratio_model 0 0
                  PNone [(''SRT'', CFloat (Fin 20)), (''Reversals'', CInt 2)],
                Some [(''snr_env'', 10)], ()))"
  by (simp add: run_group_def example_condition_def next_masker_def example_fields
      example_material_def stair1 srt_example_1)

lemma up_flip_example:
  "record_prediction (example_experiment [4, 2, 1] 6) 5 1
     \<lparr>target = [Fin 2], masker = [Fin 2], snr = 0, res = None, test_reversals = 0,
      total_reversals = 0, last_reversal_sign = - 1, i_step = 0, all_res = []\<rparr>
   = Inr \<lparr>target = [Fin 2], masker = [Fin 2], snr = 4, res = None, test_reversals = 0,
          total_reversals = 1, last_reversal_sign = 1, i_step = 0, all_res = [(0, 1)]\<rparr>"
  by (simp add: record_prediction_def py_index_def example_fields)

lemma down_flip_example:
  "record_prediction (example_experiment [4, 2, 1] 6) 5 10
     \<lparr>target = [Fin 2], masker = [Fin 2], snr = 4, res = None, test_reversals = 0,
      total_reversals = 1, last_reversal_sign = 1, i_step = 0, all_res = [(0, 1)]\<rparr>
   = Inr \<lparr>target = [Fin 2], masker = [Fin 2], snr = 0, res = None, test_reversals = 0,
          total_reversals = 2, last_reversal_sign = - 1, i_step = 1,
          all_res = [(0, 1), (4, 10)]\<rparr>"
  by (simp add: record_prediction_def py_index_def example_fields)

lemma conditions_example:
  "conditions (example_experiment steps n) [[Fin 2]] = [example_condition]"
  by (simp add: conditions_def example_fields example_condition_def)

lemma run_example_1:
  "run (\<lambda>seed. ()) (example_experiment [20] 1) None 0 False
   = Some (Inr (append_results (example_experiment [20] 1) [] [(''snr_env'', 10)] ratio_model 0 0
                  PNone [(''SRT'', CFloat (Fin 20)), (''Reversals'', CInt 2)]))"
  by (simp add: run_def example_fields example_material_def conditions_example
      run_group_example_1)

section \<open>Claims about int2srt\<close>

text \<open>
  Claim C7, evaluated where the code departs from it. Whenever equal-length sequences
  cross the criterion at two or more indices, \<open>idx\<close> holds them all and \<open>not idx\<close>
  (line 261) raises numpy's \<open>ValueError\<close> for the truth value of an array with more than
  one element: no crossing is returned, neither the first nor, as the vectorised formula
  of lines 265 and 266 would give, all of them.
\<close>

theorem int2srt_multiple_crossings_raise:
  assumes "length xs = length ys"
    and "i < j" and "j < length ys - 1"
    and "(crit \<le> ys ! i) \<noteq> (crit \<le> ys ! Suc i)"
    and "(crit \<le> ys ! j) \<noteq> (crit \<le> ys ! Suc j)"
  shows "int2srt xs ys crit = Inl AmbiguousTruthValue"
proof -
  have "2 \<le> length (crossings ys crit)"
    unfolding crossings_def
    by (rule filter_upt_two [OF assms(2,3)]) (use assms(4,5) in auto)
  then have "array_truth (crossings ys crit) = Inl AmbiguousTruthValue"
    by (rule array_truth_many)
  then show ?thesis using assms(1) by (simp add: int2srt_def)
qed

theorem int2srt_multiple_crossings_raise_witness:
  "int2srt [0, 1, 2, 3] [0, 100, 0, 100] 50 = Inl AmbiguousTruthValue"
proof -
  have h1: "length [0, 1, 2, 3 :: real] = length [0, 100, 0, 100 :: real]" by simp
  have h2: "(0::nat) < 1" by simp
  have h3: "(1::nat) < length [0, 100, 0, 100 :: real] - 1" by simp
  have h4: "((50::real) \<le> [0, 100, 0, 100] ! 0) \<noteq> ((50::real) \<le> [0, 100, 0, 100] ! Suc 0)"
    by simp
  have h5: "((50::real) \<le> [0, 100, 0, 100] ! 1) \<noteq> ((50::real) \<le> [0, 100, 0, 100] ! Suc 1)"
    by simp
  show ?thesis
    by (rule int2srt_multiple_crossings_raise [OF h1 h2 h3 h4 h5])
qed

text \<open>
  With exactly one crossing index \<open>i\<close> the function does return one value, the
  interpolation \<open>xs[i] + (crit - ys[i]) * (xs[i+1] - xs[i]) / (ys[i+1] - ys[i])\<close>: as a
  one-element array, or as the scalar \<open>xs[0]\<close> (the same number) when \<open>i = 0\<close> and
  \<open>ys[0] = crit\<close>. For \<open>xs = [0,1,2,3]\<close>, \<open>ys = [0,40,60,80]\<close>, \<open>crit = 50\<close> it is
  \<open>1.5\<close>.
\<close>

lemma int2srt_single_crossing:
  assumes "length xs = length ys"
    and "i < length ys - 1"
    and "(crit \<le> ys ! i) \<noteq> (crit \<le> ys ! Suc i)"
    and "\<forall>j < length ys - 1. j \<noteq> i \<longrightarrow> (crit \<le> ys ! j) = (crit \<le> ys ! Suc j)"
  shows "int2srt xs ys crit =
           Inr (if i = 0 \<and> ys ! 0 = crit then Scalar (interpolate xs ys crit i)
                else Array [interpolate xs ys crit i])"
proof -
  have idx: "crossings ys crit = [i]"
    unfolding crossings_def
    by (rule filter_upt_single) (use assms in auto)
  obtain y0 ys' where ys: "ys = y0 # ys'" using assms(2) by (cases ys) auto
  have "i = 0 \<and> ys ! 0 = crit \<Longrightarrow> xs ! 0 = interpolate xs ys crit i"
    by (simp add: interpolate_def)
  then show ?thesis
    using assms(1) idx ys by (auto simp: int2srt_def int2srt_tail_def Let_def)
qed

lemma int2srt_single_crossing_example:
  "int2srt [0, 1, 2, 3] [0, 40, 60, 80] 50 = Inr (Array [3 / 2])"
proof -
  have h1: "length [0, 1, 2, 3 :: real] = length [0, 40, 60, 80 :: real]" by simp
  have h2: "(1::nat) < length [0, 40, 60, 80 :: real] - 1" by simp
  have h3: "((50::real) \<le> [0, 40, 60, 80] ! 1) \<noteq> ((50::real) \<le> [0, 40, 60, 80] ! Suc 1)"
    by simp
  have h4: "\<forall>j < length [0, 40, 60, 80 :: real] - 1. j \<noteq> 1 \<longrightarrow>
              ((50::real) \<le> [0, 40, 60, 80] ! j) = ((50::real) \<le> [0, 40, 60, 80] ! Suc j)"
    by (simp add: numeral_3_eq_3 All_less_Suc)
  show ?thesis
    using int2srt_single_crossing [OF h1 h2 h3 h4] by (simp add: interpolate_def)
qed

text \<open>
  Claim C8 (as amended). \<open>int2srt\<close> raises its different-lengths error if and only if
  \<open>xs\<close> and \<open>ys\<close> differ in length; for non-empty equal-length inputs with no index
  where \<open>ys - crit\<close> changes sign the result is \<open>None\<close>, except that it is \<open>xs[0]\<close>
  when \<open>ys[0] = crit\<close>.
\<close>

theorem int2srt_errors_and_no_crossing:
  "(int2srt xs ys crit = Inl DifferentLengths \<longleftrightarrow> length xs \<noteq> length ys)
   \<and> (length xs = length ys \<longrightarrow> ys \<noteq> [] \<longrightarrow>
        (\<forall>j < length ys - 1. (crit \<le> ys ! j) = (crit \<le> ys ! Suc j)) \<longrightarrow>
        int2srt xs ys crit = Inr (if ys ! 0 = crit then Scalar (xs ! 0) else NoCrossing))"
proof (intro conjI impI)
  show "int2srt xs ys crit = Inl DifferentLengths \<longleftrightarrow> length xs \<noteq> length ys"
    using array_truth_not_lengths [of "crossings ys crit"]
    by (auto simp: int2srt_def int2srt_tail_def Let_def split: sum.splits list.splits)
next
  assume len: "length xs = length ys" and ne: "ys \<noteq> []"
    and none: "\<forall>j < length ys - 1. (crit \<le> ys ! j) = (crit \<le> ys ! Suc j)"
  have idx: "crossings ys crit = []"
    unfolding crossings_def by (rule filter_upt_none) (use none in auto)
  obtain y0 ys' where ys: "ys = y0 # ys'" using ne by (cases ys) auto
  show "int2srt xs ys crit = Inr (if ys ! 0 = crit then Scalar (xs ! 0) else NoCrossing)"
    using len idx ys by (simp add: int2srt_def int2srt_tail_def)
qed

theorem int2srt_errors_and_no_crossing_witness:
  "int2srt [0, 1, 2] [10, 20, 30] 50 = Inr NoCrossing
   \<and> int2srt [5, 6] [50, 60] 50 = Inr (Scalar 5)
   \<and> int2srt [0, 1] [10, 20, 30] 50 = Inl DifferentLengths"
proof -
  have a: "int2srt [0, 1, 2] [10, 20, 30] 50 = Inr NoCrossing"
    using int2srt_errors_and_no_crossing [of "[0, 1, 2]" "[10, 20, 30]" 50]
    by (simp add: numeral_2_eq_2 All_less_Suc)
  have b: "int2srt [5, 6] [50, 60] 50 = Inr (Scalar 5)"
    using int2srt_errors_and_no_crossing [of "[5, 6]" "[50, 60]" 50]
    by simp
  have c: "int2srt [0, 1] [10, 20, 30] 50 = Inl DifferentLengths"
    using int2srt_errors_and_no_crossing [of "[0, 1]" "[10, 20, 30]" 50]
    by simp
  from a b c show ?thesis by simp
qed

text \<open>
  Claim C8 as stated fails on empty inputs: they have equal length and no sign change,
  yet reading \<open>y[0]\<close> raises \<open>IndexError\<close> instead of returning \<open>None\<close>.
\<close>

theorem int2srt_empty_counterexample:
  "int2srt [] [] 50 = Inl IndexError"
  by (simp add: int2srt_def crossings_def)

section \<open>Claims about setdbspl\<close>

text \<open>
  Claim C9 (as amended). \<open>setdbspl\<close> never fails because the RMS is zero: it fails
  exactly when the gain \<open>10 ** ((lvl - offset) / 20)\<close> is beyond the largest float
  (\<open>OverflowError\<close>), whatever the signal. The \<open>rms\<close> of a signal of real samples is
  its root mean square, and without the AC option it is zero exactly for the all-zeros
  signal. When the gain is representable: for every signal whose RMS is zero the function
  returns an array of the signal's length whose samples are all \<open>nan\<close> or infinite (all
  \<open>nan\<close> for the all-zeros signal); for every signal of real samples whose RMS \<open>r\<close> is
  not zero it returns normally, each sample \<open>v\<close> becoming \<open>v / r\<close> times the gain.
\<close>

theorem setdbspl_fails_only_on_overflow:
  "(isl (setdbspl x lvl ac offset) \<longleftrightarrow> float_max < 10 powr ((lvl - offset) / 20))
   \<and> rms (map Fin xs) ac = Fin (rms_spec xs ac)
   \<and> (rms (map Fin xs) False = Fin 0 \<longleftrightarrow> (\<forall>v \<in> set xs. v = 0))
   \<and> (10 powr ((lvl - offset) / 20) \<le> float_max \<longrightarrow>
        (rms x ac = Fin 0 \<longrightarrow>
           (\<exists>y. setdbspl x lvl ac offset = Inr y \<and> length y = length x
                \<and> (\<forall>v \<in> set y. \<not> is_finite v)))
      \<and> setdbspl (replicate n (Fin 0)) lvl False offset = Inr (replicate n NaN)
      \<and> (rms_spec xs ac \<noteq> 0 \<longrightarrow>
           setdbspl (map Fin xs) lvl ac offset
             = Inr (map (\<lambda>v. Fin (v / rms_spec xs ac * 10 powr ((lvl - offset) / 20))) xs)))"
proof (intro conjI impI)
  show "isl (setdbspl x lvl ac offset) \<longleftrightarrow> float_max < 10 powr ((lvl - offset) / 20)"
    by (simp add: setdbspl_def py_pow10_def)
next
  show "rms (map Fin xs) ac = Fin (rms_spec xs ac)" by (rule rms_Fin)
next
  show "rms (map Fin xs) False = Fin 0 \<longleftrightarrow> (\<forall>v \<in> set xs. v = 0)"
    by (simp add: rms_Fin rms_spec_zero_iff)
next
  assume g: "10 powr ((lvl - offset) / 20) \<le> float_max" and z: "rms x ac = Fin 0"
  have "\<forall>v \<in> set (map (\<lambda>v. np_mul (np_div v (Fin 0)) (Fin (10 powr ((lvl - offset) / 20)))) x).
          \<not> is_finite v"
    using np_mul_gain_not_finite [OF np_div_zero_not_finite, of "10 powr ((lvl - offset) / 20)"]
    by auto
  then show "\<exists>y. setdbspl x lvl ac offset = Inr y \<and> length y = length x
                \<and> (\<forall>v \<in> set y. \<not> is_finite v)"
    using setdbspl_ok [OF g, of x ac] z by simp
next
  assume g: "10 powr ((lvl - offset) / 20) \<le> float_max"
  show "setdbspl (replicate n (Fin 0)) lvl False offset = Inr (replicate n NaN)"
    using setdbspl_ok [OF g, of "replicate n (Fin 0)" False] by (simp add: rms_zeros)
next
  assume g: "10 powr ((lvl - offset) / 20) \<le> float_max" and r: "rms_spec xs ac \<noteq> 0"
  show "setdbspl (map Fin xs) lvl ac offset
          = Inr (map (\<lambda>v. Fin (v / rms_spec xs ac * 10 powr ((lvl - offset) / 20))) xs)"
    using setdbspl_ok [OF g, of "map Fin xs" ac] r by (simp add: rms_Fin)
qed

theorem setdbspl_fails_only_on_overflow_witness:
  "setdbspl [Fin 0, Fin 0] 65 False 100 = Inr [NaN, NaN]
   \<and> rms (map Fin [2]) False = Fin 2
   \<and> setdbspl (map Fin [2]) 100 False 100 = Inr [Fin 1]
   \<and> isl (setdbspl [Fin 2] 7000 False 100)"
proof -
  have a: "setdbspl [Fin 0, Fin 0] 65 False 100 = Inr [NaN, NaN]"
    using setdbspl_fails_only_on_overflow [of "[]" 65 False 100 "[]" 2] gain_low
    by (simp add: numeral_2_eq_2)
  have r: "rms_spec [2] False = 2"
    by (simp add: rms_spec_def)
  have b: "rms (map Fin [2]) False = Fin 2
           \<and> setdbspl (map Fin [2]) 100 False 100 = Inr [Fin 1]"
    using setdbspl_fails_only_on_overflow [of "[]" 100 False 100 "[2]" 0] r float_max_ge_one
    by simp
  have c: "isl (setdbspl [Fin 2] 7000 False 100)"
    using setdbspl_fails_only_on_overflow [of "[Fin 2]" 7000 False 100 "[]" 0] gain_7000
    by simp
  from a b c show ?thesis by simp
qed

text \<open>
  Claim C9 as stated fails in both halves. The all-zeros signal has RMS zero and
  \<open>setdbspl\<close> returns an array of \<open>nan\<close> instead of raising; and the signal \<open>[2]\<close> has
  RMS \<open>2\<close>, yet at level \<open>7000\<close> the call raises \<open>OverflowError\<close> instead of returning.
\<close>

theorem setdbspl_silence_and_overflow_counterexample:
  "rms [Fin 0, Fin 0, Fin 0] False = Fin 0
   \<and> setdbspl [Fin 0, Fin 0, Fin 0] 65 False 100 = Inr [NaN, NaN, NaN]
   \<and> rms [Fin 2] False = Fin 2
   \<and> setdbspl [Fin 2] 7000 False 100 = Inl OverflowError"
proof -
  have z: "rms [Fin 0, Fin 0, Fin 0] False = Fin 0"
    using rms_zeros [of 3] by (simp add: numeral_3_eq_3)
  have "setdbspl [Fin 0, Fin 0, Fin 0] 65 False 100 = Inr [NaN, NaN, NaN]"
    using setdbspl_ok [OF gain_low, of "[Fin 0, Fin 0, Fin 0]" False] z by simp
  moreover have "setdbspl [Fin 2] 7000 False 100 = Inl OverflowError"
    using gain_7000 by (simp add: setdbspl_def py_pow10_def)
  ultimately show ?thesis using z rms_single [of 2] by simp
qed

section \<open>Claims about the adaptive staircase\<close>

text \<open>
  Claim C4 (as amended). The staircase loop goes on from a state whose test-reversal
  count is at most \<open>n_test_reversals\<close> (one more pass, or the error the pass raises) and
  stops at a state whose count exceeds it. Every staircase that terminates with
  \<open>n_test_reversals\<close> at least \<open>-1\<close> (so for every count of reversals that is not
  negative) leaves the loop with the test-reversal count equal to
  \<open>n_test_reversals + 1\<close>.
\<close>

theorem staircase_loop_exit_count:
  "(test_reversals l0 \<le> n_test_reversals self \<longrightarrow>
      staircase self model params pred_key threshold l0
        = (case iteration self model params pred_key threshold l0 of
             Inl e \<Rightarrow> Some (Inl e)
           | Inr l1 \<Rightarrow> staircase self model params pred_key threshold l1))
   \<and> (n_test_reversals self < test_reversals l0 \<longrightarrow>
      staircase self model params pred_key threshold l0 = Some (Inr l0))
   \<and> group_staircase self ((i_target, tgt), params, (model, (pred_key, threshold))) (df, r, w)
       = staircase self model params pred_key threshold
           (loop_entry self tgt (fst (next_masker self tgt params w)) r)
   \<and> (group_staircase self c v = Some (Inr l) \<longrightarrow> - 1 \<le> n_test_reversals self \<longrightarrow>
        test_reversals l = n_test_reversals self + 1)"
proof (intro conjI impI)
  assume "test_reversals l0 \<le> n_test_reversals self"
  then show "staircase self model params pred_key threshold l0
        = (case iteration self model params pred_key threshold l0 of
             Inl e \<Rightarrow> Some (Inl e)
           | Inr l1 \<Rightarrow> staircase self model params pred_key threshold l1)"
    unfolding staircase_def by (subst while_loop.simps) simp
next
  assume "n_test_reversals self < test_reversals l0"
  then show "staircase self model params pred_key threshold l0 = Some (Inr l0)"
    unfolding staircase_def by (intro while_loop_exit) simp
next
  show "group_staircase self ((i_target, tgt), params, (model, (pred_key, threshold))) (df, r, w)
       = staircase self model params pred_key threshold
           (loop_entry self tgt (fst (next_masker self tgt params w)) r)"
    by (simp add: group_staircase_def split: prod.splits)
next
  assume run: "group_staircase self c v = Some (Inr l)" and n: "- 1 \<le> n_test_reversals self"
  obtain df' r' w' where v: "v = (df', r', w')" by (cases v) auto
  obtain i' tgt' params' model' pred_key' threshold' where
    c: "c = ((i', tgt'), params', (model', (pred_key', threshold')))"
    by (cases c) auto
  obtain msk w1 where nm: "next_masker self tgt' params' w' = (msk, w1)"
    by (cases "next_masker self tgt' params' w'") auto
  from run v c nm have
    "staircase self model' params' pred_key' threshold' (loop_entry self tgt' msk r') = Some (Inr l)"
    by (simp add: group_staircase_def)
  from staircase_exit(1) [OF this _ n]
  show "test_reversals l = n_test_reversals self + 1"
    by (simp add: loop_entry_fields)
qed

theorem staircase_loop_exit_count_witness:
  "map_option (map_sum id test_reversals)
     (group_staircase (example_experiment [20] 1) example_condition ([], None, ()))
   = Some (Inr (n_test_reversals (example_experiment [20] 1) + 1))"
proof -
  have n: "- 1 \<le> n_test_reversals (example_experiment [20] 1)"
    by (simp add: example_fields)
  from staircase_loop_exit_count
      [THEN conjunct2, THEN conjunct2, THEN conjunct2, rule_format,
       OF group_staircase_example_1 n]
  show ?thesis by (simp add: group_staircase_example_1)
qed

text \<open>
  Claim C4 as stated fails for \<open>n_test_reversals = -2\<close>: the guard \<open>0 <= -2\<close> is false
  at once, the loop terminates without a pass, and the count at exit is \<open>0\<close>, not
  \<open>n_test_reversals + 1 = -1\<close>.
\<close>

theorem negative_reversal_count_counterexample:
  "map_option (map_sum id test_reversals)
     (group_staircase (example_experiment [20] (- 2)) example_condition ([], None, ()))
   = Some (Inr 0)
   \<and> n_test_reversals (example_experiment [20] (- 2)) + 1 = - 1"
  by (simp add: group_staircase_def example_condition_def next_masker_def example_fields
      example_material_def staircase_no_iteration loop_entry_fields)

text \<open>
  Claim C5 (as amended). For every staircase that terminates, when \<open>n_test_reversals\<close> is
  at least \<open>1\<close>, the history has at least that many entries and the SRT computed on
  line 789 is the arithmetic mean of the SNR components of its last \<open>n_test_reversals\<close>
  entries.
\<close>

theorem srt_mean_of_last_entries:
  assumes "group_staircase self c v = Some (Inr l)"
    and "1 \<le> n_test_reversals self"
  shows "length (drop (length (all_res l) - nat (n_test_reversals self)) (all_res l))
           = nat (n_test_reversals self)
       \<and> srt_of self l
           = Fin (sum_list (map fst (drop (length (all_res l) - nat (n_test_reversals self))
                                      (all_res l)))
                  / real (nat (n_test_reversals self)))"
proof -
  obtain df r w where v: "v = (df, r, w)" by (cases v) auto
  obtain i_target tgt params model pred_key threshold where
    c: "c = ((i_target, tgt), params, (model, (pred_key, threshold)))"
    by (cases c) auto
  obtain msk w1 where nm: "next_masker self tgt params w = (msk, w1)"
    by (cases "next_masker self tgt params w") auto
  from assms(1) v c nm have
    l: "staircase self model params pred_key threshold (loop_entry self tgt msk r) = Some (Inr l)"
    by (simp add: group_staircase_def)
  let ?n = "n_test_reversals self"
  let ?h = "all_res l"
  have len: "?n + 1 \<le> int (length ?h)"
    using staircase_exit(2) [OF l] assms(2) by (simp add: loop_entry_fields)
  have slice: "py_slice_from ?h (- ?n) = drop (length ?h - nat ?n) ?h"
    using len assms(2) by (simp add: py_slice_from_def Let_def nat_diff_distrib' max_def)
  have cnt: "length (drop (length ?h - nat ?n) ?h) = nat ?n"
    using len assms(2) by simp
  have ne: "map fst (drop (length ?h - nat ?n) ?h) \<noteq> []"
    using cnt assms(2) by auto
  have "srt_of self l = np_mean (map Fin (map fst (drop (length ?h - nat ?n) ?h)))"
    by (simp add: srt_of_def slice comp_def)
  also have "\<dots> = Fin (sum_list (map fst (drop (length ?h - nat ?n) ?h)) / real (nat ?n))"
    using np_mean_Fin [OF ne] cnt by simp
  finally show ?thesis using cnt by simp
qed

theorem srt_mean_of_last_entries_witness:
  "map_option (map_sum id (srt_of (example_experiment [20] 1)))
     (group_staircase (example_experiment [20] 1) example_condition ([], None, ()))
   = Some (Inr (Fin 20))"
proof -
  have n: "1 \<le> n_test_reversals (example_experiment [20] 1)"
    by (simp add: example_fields)
  from srt_mean_of_last_entries [OF group_staircase_example_1 n]
  show ?thesis
    by (simp add: group_staircase_example_1 example_fields)
qed

text \<open>
  Claim C5 as stated fails for \<open>n_test_reversals = 0\<close>: the slice \<open>all_res[-0:]\<close> is the
  whole history, so the SRT is the mean of every logged SNR (here \<open>0.0\<close>), while the mean
  of the last zero entries is \<open>nan\<close>.
\<close>

theorem srt_zero_reversals_counterexample:
  "map_option (map_sum id (\<lambda>l. (all_res l, srt_of (example_experiment [20] 0) l)))
     (group_staircase (example_experiment [20] 0) example_condition ([], None, ()))
   = Some (Inr ([(0, 1)], Fin 0))
   \<and> np_mean (map (\<lambda>each. Fin (fst each))
        (drop (length [(0::real, 1::real)] - nat (n_test_reversals (example_experiment [20] 0)))
           [(0::real, 1::real)])) = NaN"
  by (simp add: group_staircase_example_0 srt_example_0 example_fields np_mean_def np_sum_def)

text \<open>
  Claim C3 (as amended). The two flips are not handled alike. On an upward flip
  (prediction below the threshold after a decrease) the direction becomes ascending and
  the step index stays as it is; a test reversal is counted when that index is the last
  one. On a downward flip (prediction at or above the threshold after an increase) the
  direction becomes descending and the step index advances to the next step size, capped
  at the last entry; a test reversal is counted when the new index is the last one.
\<close>

theorem step_index_on_flips:
  assumes "record_prediction self threshold pred l = Inr l'"
  shows "(pred < threshold \<and> last_reversal_sign l < 0 \<longrightarrow>
            last_reversal_sign l' = 1
          \<and> i_step l' = i_step l
          \<and> test_reversals l' =
               (if i_step l = int (length (step_sizes self)) - 1
                then test_reversals l + 1 else test_reversals l))
       \<and> (threshold \<le> pred \<and> 0 < last_reversal_sign l \<longrightarrow>
            last_reversal_sign l' = - 1
          \<and> i_step l' = min (i_step l + 1) (int (length (step_sizes self)) - 1)
          \<and> test_reversals l' =
               (if i_step l' = int (length (step_sizes self)) - 1
                then test_reversals l + 1 else test_reversals l))"
  using assms
  by (auto simp: record_prediction_def Let_def split: sum.splits if_splits)

theorem step_index_on_flips_witness:
  "i_step \<lparr>target = [Fin 2], masker = [Fin 2], snr = 4, res = None, test_reversals = 0,
          total_reversals = 1, last_reversal_sign = 1, i_step = 0, all_res = [(0, 1)]\<rparr> = 0
   \<and> i_step \<lparr>target = [Fin 2], masker = [Fin 2], snr = 0, res = None, test_reversals = 0,
          total_reversals = 2, last_reversal_sign = - 1, i_step = 1,
          all_res = [(0, 1), (4, 10)]\<rparr>
       = min (0 + 1) (int (length (step_sizes (example_experiment [4, 2, 1] 6))) - 1)"
  using step_index_on_flips [OF up_flip_example] step_index_on_flips [OF down_flip_example]
  by (simp add: example_fields)

text \<open>
  Claim C3 as stated fails on an upward flip: with step sizes \<open>(4, 2, 1)\<close>, step index
  \<open>0\<close>, the last move a decrease and a prediction below the threshold, the direction
  becomes ascending and the step index is still \<open>0\<close>, not \<open>min(0 + 1, 2) = 1\<close>.
\<close>

theorem upward_flip_keeps_step_counterexample:
  "map_sum id (\<lambda>l. (last_reversal_sign l, i_step l))
     (record_prediction (example_experiment [4, 2, 1] 6) 5 1
        (loop_entry (example_experiment [4, 2, 1] 6) [Fin 2] [Fin 2] None))
   = Inr (1, 0)
   \<and> min (i_step (loop_entry (example_experiment [4, 2, 1] 6) [Fin 2] [Fin 2] None) + 1)
         (int (length (step_sizes (example_experiment [4, 2, 1] 6))) - 1) = 1"
  by (simp add: record_prediction_def loop_entry_def py_index_def example_fields)

text \<open>
  Claim C2, evaluated where the code departs from it. On the first pass with a prediction
  at or above the threshold the pair \<open>(snr, pred)\<close> is appended to the history and the
  direction stays descending (\<open>-1\<close>), yet \<open>total_reversals\<close> becomes \<open>1\<close>: line 787 runs
  on every pass of the loop.
\<close>

theorem total_reversals_counts_iterations:
  "map_sum id (\<lambda>l. (last_reversal_sign l, total_reversals l, all_res l))
     (record_prediction (example_experiment [4, 2, 1] 6) 5 10
        (loop_entry (example_experiment [4, 2, 1] 6) [Fin 2] [Fin 2] None))
   = Inr (- 1, 1, [(0, 10)])
   \<and> last_reversal_sign (loop_entry (example_experiment [4, 2, 1] 6) [Fin 2] [Fin 2] None) = - 1"
  by (simp add: record_prediction_def loop_entry_def py_index_def example_fields)

text \<open>
  Claim C6, evaluated where the code departs from it. The loop assigns the result of
  \<open>preprocessing\<close> to \<open>target\<close> and \<open>masker\<close>, the variables it passes to the next
  call: after the first pass they hold the level-adjusted signals \<open>[1]\<close>, \<open>[1]\<close>, not
  the group's original \<open>[2]\<close>, \<open>[2]\<close>.
\<close>

theorem second_iteration_gets_processed_signals:
  "map_sum id (\<lambda>l. (target l, masker l))
     (iteration (example_experiment [20] 1) ratio_model PNone ''snr_env'' 5
        (loop_entry (example_experiment [20] 1) [Fin 2] [Fin 2] None))
   = Inr ([Fin 1], [Fin 1])
   \<and> (target (loop_entry (example_experiment [20] 1) [Fin 2] [Fin 2] None),
       masker (loop_entry (example_experiment [20] 1) [Fin 2] [Fin 2] None))
     = ([Fin 2], [Fin 2])"
  by (simp add: it0 loop_entry_fields)

text \<open>
  Claim C1, evaluated where the code departs from it. The run computes the SRT \<open>20\<close>
  and \<open>2\<close> reversals and passes them to \<open>append_results\<close> as keyword arguments, which
  that method never reads: the appended row has no \<open>SRT\<close> and no \<open>Reversals\<close> field. It
  does carry the last model output.
\<close>

theorem result_row_lacks_srt:
  "map_option (map_sum id (map (\<lambda>row. (row ''SRT'', row ''Reversals'', row ''Output'', row ''Value''))))
     (run (\<lambda>seed. ()) (example_experiment [20] 1) None 0 False)
   = Some (Inr [(None, None, Some (CStr ''snr_env''), Some (CReal 10))])
   \<and> map_option (map_sum id (\<lambda>l. (srt_of (example_experiment [20] 1) l, total_reversals l)))
       (group_staircase (example_experiment [20] 1) example_condition ([], None, ()))
     = Some (Inr (Fin 20, 2))"
  by (simp add: run_example_1 append_results_def Let_def group_staircase_example_1 srt_example_1)

text \<open>
  Claim C10. \<open>change_step_on\<close> is stored by the constructor and read by nothing: for
  every configuration, material and model, and any two values of the attribute (\<open>-1\<close> and
  \<open>+1\<close> among them), \<open>AdaptiveExperiment.run\<close> returns the same result or fails or
  diverges alike, every group's staircase ends in the same variables (step index,
  reversal counts, history), and the SRT computed from them is the same.
\<close>

theorem change_step_on_has_no_effect:
  "run np_random_seed (self\<lparr>change_step_on := a\<rparr>) n seed parallel
     = run np_random_seed (self\<lparr>change_step_on := b\<rparr>) n seed parallel
   \<and> group_staircase (self\<lparr>change_step_on := a\<rparr>) c v
     = group_staircase (self\<lparr>change_step_on := b\<rparr>) c v
   \<and> srt_of (self\<lparr>change_step_on := a\<rparr>) l = srt_of (self\<lparr>change_step_on := b\<rparr>) l"
  by (simp add: run_ignores group_staircase_ignores srt_of_ignores)

end
